theory Spec2Isabelle
  imports Main "HOL-Library.Word"
begin

section \<open>The ArbitrationAdapter contract\<close>

text \<open>
  A shallow embedding of the Solidity contract \<open>ArbitrationAdapter\<close>: its storage, its
  events, its three functions and the revert behaviour of each \<open>require\<close>.
  A reverted call is a value \<open>Inl err\<close>; a call that completes returns \<open>Inr\<close> of its
  result. Solidity 0.8 checks arithmetic, so the addition \<open>timestamp + 3600\<close> is modelled
  with its overflow panic.
\<close>

subsection \<open>Value types\<close>

type_synonym address = "160 word"
type_synonym bytes32 = "256 word"
type_synonym uint256 = "256 word"
type_synonym uint8 = "8 word"
type_synonym bytes = "8 word list"

text \<open>
  How a call can revert: a \<open>require\<close> with its message, the arithmetic panic with its
  code, or a revert raised inside the library function \<open>ECDSA.recover\<close> (the library is an
  external dependency; the data of its error is not modelled).
\<close>

datatype error = Error string | Panic nat | ECDSAError

subsection \<open>Builtins and library functions\<close>

text \<open>
  The hash \<open>keccak256\<close>, the domain-separated hash \<open>_hashTypedDataV4\<close> of the inherited
  \<open>EIP712\<close> contract (fixed at construction from NAME = "EscrowArbitration",
  VERSION = "1", the chain and the contract address) and \<open>ECDSA.recover\<close> are taken as
  parameters. \<open>recover\<close> yields \<open>None\<close> where the library reverts.
\<close>

record lib =
  keccak256 :: "bytes \<Rightarrow> bytes32"
  hashTypedDataV4 :: "bytes32 \<Rightarrow> bytes32"
  recover :: "bytes32 \<Rightarrow> bytes \<Rightarrow> address option"

text \<open>The 32 bytes of a 256-bit value, most significant first.\<close>

definition word_bytes :: "256 word \<Rightarrow> bytes" where
  "word_bytes w = map (\<lambda>i. ucast (drop_bit (8 * i) w)) (rev [0..<32])"

text \<open>\<open>abi.encode\<close> of static values: each one padded to 32 bytes.\<close>

definition abi_encode :: "256 word list \<Rightarrow> bytes" where
  "abi_encode ws = concat (map word_bytes ws)"

text \<open>\<open>abi.encodePacked(orderId, nonce)\<close> of a \<open>bytes32\<close> and a \<open>uint256\<close>.\<close>

definition abi_encodePacked :: "bytes32 \<Rightarrow> uint256 \<Rightarrow> bytes" where
  "abi_encodePacked orderId nonce = word_bytes orderId @ word_bytes nonce"

definition bytes_of_string :: "string \<Rightarrow> bytes" where
  "bytes_of_string s = map (\<lambda>c. of_nat (of_char c)) s"

definition RULING_TYPEHASH :: "lib \<Rightarrow> bytes32" where
  "RULING_TYPEHASH L =
     keccak256 L (bytes_of_string
       ''Ruling(bytes32 orderId,uint8 ruling,uint256 timestamp,uint256 nonce)'')"

text \<open>Checked addition of Solidity 0.8 on \<open>uint256\<close>: \<open>None\<close> is the panic 0x11.\<close>

definition checked_add :: "uint256 \<Rightarrow> uint256 \<Rightarrow> uint256 option" where
  "checked_add a b = (if unat a + unat b < 2 ^ 256 then Some (a + b) else None)"

subsection \<open>Storage, events, environment\<close>

record state =
  arbitrator :: address
  usedNonces :: "bytes32 \<Rightarrow> bool"

datatype event =
  ArbitratorChanged address
| RulingSubmitted bytes32 uint8 uint256 uint256 address

record env =
  block_timestamp :: uint256
  msg_sender :: address

definition constructor :: "address \<Rightarrow> state" where
  "constructor a = \<lparr>arbitrator = a, usedNonces = (\<lambda>_. False)\<rparr>"

subsection \<open>Functions\<close>

text \<open>
  A state-changing function returns the new storage and the events it emitted, in order.
\<close>

definition setArbitrator :: "env \<Rightarrow> state \<Rightarrow> address \<Rightarrow> error + state \<times> event list" where
  "setArbitrator e s a =
     (if msg_sender e \<noteq> arbitrator s then Inl (Error ''only arbitrator'')
      else Inr (s\<lparr>arbitrator := a\<rparr>, [ArbitratorChanged a]))"

definition verifyRulingSignature ::
  "lib \<Rightarrow> env \<Rightarrow> state \<Rightarrow> bytes32 \<Rightarrow> uint8 \<Rightarrow> uint256 \<Rightarrow> uint256 \<Rightarrow> bytes \<Rightarrow> error + bool" where
  "verifyRulingSignature L e s orderId ruling timestamp nonce signature =
     (case checked_add timestamp 3600 of
        None \<Rightarrow> Inl (Panic 0x11)
      | Some deadline \<Rightarrow>
          if \<not> block_timestamp e \<le> deadline then Inl (Error ''signature expired'')
          else
            let structHash = keccak256 L (abi_encode
                  [RULING_TYPEHASH L, orderId, ucast ruling, timestamp, nonce]);
                digest = hashTypedDataV4 L structHash
            in case recover L digest signature of
                 None \<Rightarrow> Inl ECDSAError
               | Some signer \<Rightarrow> Inr (signer = arbitrator s))"

definition submitRuling ::
  "lib \<Rightarrow> env \<Rightarrow> state \<Rightarrow> bytes32 \<Rightarrow> uint8 \<Rightarrow> uint256 \<Rightarrow> uint256 \<Rightarrow> bytes
     \<Rightarrow> error + state \<times> event list" where
  "submitRuling L e s orderId ruling timestamp nonce signature =
     (case verifyRulingSignature L e s orderId ruling timestamp nonce signature of
        Inl err \<Rightarrow> Inl err
      | Inr ok \<Rightarrow>
          if \<not> ok then Inl (Error ''bad signature'')
          else if usedNonces s (keccak256 L (abi_encodePacked orderId nonce))
          then Inl (Error ''nonce used'')
          else Inr (s\<lparr>usedNonces :=
                         (usedNonces s)(keccak256 L (abi_encodePacked orderId nonce) := True)\<rparr>,
                    [RulingSubmitted orderId ruling timestamp nonce (msg_sender e)]))"

text \<open>The digest that \<open>verifyRulingSignature\<close> hands to \<open>ECDSA.recover\<close>.\<close>

abbreviation rulingDigest :: "lib \<Rightarrow> bytes32 \<Rightarrow> uint8 \<Rightarrow> uint256 \<Rightarrow> uint256 \<Rightarrow> bytes32" where
  "rulingDigest L orderId ruling timestamp nonce \<equiv>
     hashTypedDataV4 L (keccak256 L (abi_encode
       [RULING_TYPEHASH L, orderId, ucast ruling, timestamp, nonce]))"

text \<open>The key under which \<open>submitRuling\<close> records a pair in \<open>usedNonces\<close>.\<close>

abbreviation replayKey :: "lib \<Rightarrow> bytes32 \<Rightarrow> uint256 \<Rightarrow> bytes32" where
  "replayKey L orderId nonce \<equiv> keccak256 L (abi_encodePacked orderId nonce)"

subsection \<open>Transactions\<close>

text \<open>
  A transaction is one external call in an environment. When the call reverts, the EVM
  discards its storage writes and its events; otherwise the new storage is kept.
\<close>

datatype call =
  SetArbitrator address
| VerifyRulingSignature bytes32 uint8 uint256 uint256 bytes
| SubmitRuling bytes32 uint8 uint256 uint256 bytes

datatype outcome = Reverted error | Returned bool | Done

fun transact :: "lib \<Rightarrow> env \<times> call \<Rightarrow> state \<Rightarrow> outcome \<times> state \<times> event list" where
  "transact L (e, SetArbitrator a) s =
     (case setArbitrator e s a of
        Inl err \<Rightarrow> (Reverted err, s, [])
      | Inr (s', evs) \<Rightarrow> (Done, s', evs))"
| "transact L (e, VerifyRulingSignature orderId ruling timestamp nonce signature) s =
     (case verifyRulingSignature L e s orderId ruling timestamp nonce signature of
        Inl err \<Rightarrow> (Reverted err, s, [])
      | Inr b \<Rightarrow> (Returned b, s, []))"
| "transact L (e, SubmitRuling orderId ruling timestamp nonce signature) s =
     (case submitRuling L e s orderId ruling timestamp nonce signature of
        Inl err \<Rightarrow> (Reverted err, s, [])
      | Inr (s', evs) \<Rightarrow> (Done, s', evs))"

text \<open>The storage after a sequence of transactions, and the log they leave.\<close>

fun run :: "lib \<Rightarrow> (env \<times> call) list \<Rightarrow> state \<Rightarrow> state" where
  "run L [] s = s"
| "run L (tx # txs) s = run L txs (fst (snd (transact L tx s)))"

fun run_log :: "lib \<Rightarrow> (env \<times> call) list \<Rightarrow> state \<Rightarrow> event list" where
  "run_log L [] s = []"
| "run_log L (tx # txs) s =
     snd (snd (transact L tx s)) @ run_log L txs (fst (snd (transact L tx s)))"

subsection \<open>A concrete library for evaluation\<close>

text \<open>
  A small stand-in for the cryptography, used to evaluate the contract on concrete
  inputs: the hash sums the bytes, and the first byte of a signature names its signer
  (0 or no byte at all is an unrecoverable signature). Like the real library, its
  \<open>recover\<close> never yields the zero address.
\<close>

definition test_keccak256 :: "bytes \<Rightarrow> bytes32" where
  "test_keccak256 bs = of_nat (sum_list (map unat bs))"

definition test_recover :: "bytes32 \<Rightarrow> bytes \<Rightarrow> address option" where
  "test_recover digest signature =
     (case signature of [] \<Rightarrow> None | b # _ \<Rightarrow> if b = 0 then None else Some (ucast b))"

definition test_lib :: lib where
  "test_lib = \<lparr>keccak256 = test_keccak256, hashTypedDataV4 = (\<lambda>h. h + 1),
               recover = test_recover\<rparr>"

section \<open>Basic facts\<close>

lemma recover_test_lib [simp]: "recover test_lib = test_recover"
  by (simp add: test_lib_def)

lemma checked_add_Some:
  "checked_add a b = Some c \<Longrightarrow> unat c = unat a + unat b"
  by (auto simp: checked_add_def unat_word_ariths split: if_splits)

lemma checked_add_3600:
  "unat t + 3600 < 2 ^ 256 \<Longrightarrow> checked_add t 3600 = Some (t + 3600)"
  by (simp add: checked_add_def)

lemma unat_plus_3600:
  "unat (t :: uint256) + 3600 < 2 ^ 256 \<Longrightarrow> unat (t + 3600) = unat t + 3600"
  by (simp add: unat_word_ariths)

lemma verify_expired:
  assumes "unat timestamp + 3600 < unat (block_timestamp e)"
  shows "verifyRulingSignature L e s orderId ruling timestamp nonce signature =
           Inl (Error ''signature expired'')"
proof -
  have "unat (block_timestamp e) < 2 ^ 256"
    using unsigned_less [of "block_timestamp e"] by simp
  with assms have b: "unat timestamp + 3600 < 2 ^ 256" by simp
  have "\<not> block_timestamp e \<le> timestamp + 3600"
    using assms unat_plus_3600 [OF b] by (simp add: word_le_nat_alt)
  then show ?thesis
    by (simp add: verifyRulingSignature_def checked_add_3600 [OF b])
qed

lemma verify_fresh:
  assumes "unat timestamp + 3600 < 2 ^ 256"
    and "unat (block_timestamp e) \<le> unat timestamp + 3600"
  shows "verifyRulingSignature L e s orderId ruling timestamp nonce signature =
           (case recover L (rulingDigest L orderId ruling timestamp nonce) signature of
              None \<Rightarrow> Inl ECDSAError
            | Some signer \<Rightarrow> Inr (signer = arbitrator s))"
proof -
  have "block_timestamp e \<le> timestamp + 3600"
    using assms unat_plus_3600 [OF assms(1)] by (simp add: word_le_nat_alt)
  then show ?thesis
    by (simp add: verifyRulingSignature_def checked_add_3600 [OF assms(1)] Let_def)
qed

lemma verify_overflow:
  assumes "\<not> unat timestamp + 3600 < 2 ^ 256"
  shows "verifyRulingSignature L e s orderId ruling timestamp nonce signature =
           Inl (Panic 0x11)"
  using assms by (simp add: verifyRulingSignature_def checked_add_def)

lemma verify_True_iff:
  "verifyRulingSignature L e s orderId ruling timestamp nonce signature = Inr True \<longleftrightarrow>
     unat timestamp + 3600 < 2 ^ 256 \<and>
     unat (block_timestamp e) \<le> unat timestamp + 3600 \<and>
     recover L (rulingDigest L orderId ruling timestamp nonce) signature = Some (arbitrator s)"
proof (cases "unat timestamp + 3600 < 2 ^ 256")
  case False
  then show ?thesis by (simp add: verify_overflow)
next
  case True
  show ?thesis
  proof (cases "unat (block_timestamp e) \<le> unat timestamp + 3600")
    case False
    then have "unat timestamp + 3600 < unat (block_timestamp e)" by simp
    with False show ?thesis by (simp add: verify_expired)
  next
    case fresh: True
    with True show ?thesis by (auto simp: verify_fresh split: option.splits)
  qed
qed

lemma verify_usedNonces_irrelevant:
  "verifyRulingSignature L e (s\<lparr>usedNonces := U\<rparr>) orderId ruling timestamp nonce signature =
   verifyRulingSignature L e s orderId ruling timestamp nonce signature"
  by (simp add: verifyRulingSignature_def Let_def split: option.splits)

lemma submitRuling_Inr:
  assumes "submitRuling L e s orderId ruling timestamp nonce signature = Inr (s', evs)"
  shows "verifyRulingSignature L e s orderId ruling timestamp nonce signature = Inr True"
    and "\<not> usedNonces s (replayKey L orderId nonce)"
    and "s' = s\<lparr>usedNonces := (usedNonces s)(replayKey L orderId nonce := True)\<rparr>"
    and "evs = [RulingSubmitted orderId ruling timestamp nonce (msg_sender e)]"
  using assms by (auto simp: submitRuling_def split: sum.splits if_splits)

lemma submitRuling_verified:
  assumes "verifyRulingSignature L e s orderId ruling timestamp nonce signature = Inr True"
  shows "submitRuling L e s orderId ruling timestamp nonce signature =
           (if usedNonces s (replayKey L orderId nonce) then Inl (Error ''nonce used'')
            else Inr (s\<lparr>usedNonces := (usedNonces s)(replayKey L orderId nonce := True)\<rparr>,
                      [RulingSubmitted orderId ruling timestamp nonce (msg_sender e)]))"
  using assms by (simp add: submitRuling_def)

lemma submitRuling_unverified:
  assumes "verifyRulingSignature L e s orderId ruling timestamp nonce signature \<noteq> Inr True"
  shows "submitRuling L e s orderId ruling timestamp nonce signature =
           Inl (case verifyRulingSignature L e s orderId ruling timestamp nonce signature of
                  Inl err \<Rightarrow> err | Inr ok \<Rightarrow> Error ''bad signature'')"
  using assms by (auto simp: submitRuling_def split: sum.splits)

lemma transact_usedNonces_mono:
  "usedNonces s k \<Longrightarrow> usedNonces (fst (snd (transact L tx s))) k"
proof (cases tx)
  case (Pair e c)
  assume k: "usedNonces s k"
  show ?thesis
  proof (cases c)
    case (SetArbitrator a)
    with Pair k show ?thesis by (simp add: setArbitrator_def)
  next
    case (VerifyRulingSignature orderId ruling timestamp nonce signature)
    with Pair k show ?thesis by (simp split: sum.splits)
  next
    case (SubmitRuling orderId ruling timestamp nonce signature)
    with Pair k show ?thesis
      by (auto split: sum.splits dest: submitRuling_Inr(3))
  qed
qed

lemma run_usedNonces_mono:
  "usedNonces s k \<Longrightarrow> usedNonces (run L txs s) k"
  by (induction txs arbitrary: s) (simp_all add: transact_usedNonces_mono)

lemma run_snoc:
  "run L (txs @ [tx]) s = fst (snd (transact L tx (run L txs s)))"
  by (induction txs arbitrary: s) simp_all

lemma run_log_snoc:
  "run_log L (txs @ [tx]) s = run_log L txs s @ snd (snd (transact L tx (run L txs s)))"
  by (induction txs arbitrary: s) simp_all

lemma ucast_byte_eq_0: "(ucast (b :: 8 word) :: 160 word) = 0 \<longleftrightarrow> b = 0"
proof
  assume "(ucast b :: 160 word) = 0"
  then have "uint (ucast b :: 160 word) = 0" by simp
  then have "uint b = 0" by (simp add: uint_up_ucast is_up)
  then show "b = 0" by (simp add: word_uint_eq_iff)
qed simp

lemma test_recover_nonzero: "recover test_lib d signature \<noteq> Some 0"
  by (auto simp: test_recover_def ucast_byte_eq_0 split: list.splits)

text \<open>With the zero address as arbitrator, no call by a non-zero sender changes anything.\<close>

lemma verify_zero_arbitrator:
  assumes "arbitrator s = 0" and "\<forall>d sg. recover L d sg \<noteq> Some 0"
  shows "verifyRulingSignature L e s orderId ruling timestamp nonce signature \<noteq> Inr True"
  using assms by (simp add: verify_True_iff)

lemma transact_zero_arbitrator:
  assumes "arbitrator s = 0" and "\<forall>d sg. recover L d sg \<noteq> Some 0"
    and "msg_sender (fst tx) \<noteq> 0"
  shows "snd (transact L tx s) = (s, [])"
proof (cases tx)
  case (Pair e c)
  show ?thesis
  proof (cases c)
    case (SetArbitrator a)
    with Pair assms show ?thesis by (simp add: setArbitrator_def)
  next
    case (VerifyRulingSignature orderId ruling timestamp nonce signature)
    with Pair show ?thesis by (simp split: sum.splits)
  next
    case (SubmitRuling orderId ruling timestamp nonce signature)
    with Pair show ?thesis
      by (simp add: submitRuling_unverified [OF verify_zero_arbitrator [OF assms(1,2)]])
  qed
qed

lemma run_zero_arbitrator:
  assumes "arbitrator s = 0" and "\<forall>d sg. recover L d sg \<noteq> Some 0"
    and "\<forall>tx \<in> set txs. msg_sender (fst tx) \<noteq> 0"
  shows "run L txs s = s \<and> run_log L txs s = []"
  using assms(3)
proof (induction txs)
  case Nil
  show ?case by simp
next
  case (Cons tx txs)
  then have "snd (transact L tx s) = (s, [])"
    using transact_zero_arbitrator [OF assms(1,2)] by simp
  with Cons show ?case by simp
qed

lemma verify_Inl:
  assumes "verifyRulingSignature L e s orderId ruling timestamp nonce signature = Inl err"
  shows "err = Panic 0x11 \<or> err = Error ''signature expired'' \<or> err = ECDSAError"
  using assms
  by (auto simp: verifyRulingSignature_def Let_def split: option.splits if_splits)




section \<open>Expiry\<close>

text \<open>
  C3. For every payload with \<open>issuedAt + 3600 < now\<close> and any signature, \<open>submitRuling\<close>
  reverts with "signature expired", whatever the signature recovers to and whether or
  not the pair (orderId, nonce) has been used; the transaction leaves the storage as it
  was and emits nothing.
\<close>

theorem submit_expired:
  assumes "unat timestamp + 3600 < unat (block_timestamp e)"
  shows "submitRuling L e s orderId ruling timestamp nonce signature =
           Inl (Error ''signature expired'')
         \<and> transact L (e, SubmitRuling orderId ruling timestamp nonce signature) s =
           (Reverted (Error ''signature expired''), s, [])"
  using verify_expired [OF assms] by (simp add: submitRuling_def)

theorem submit_expired_witness:
  "unat (50 :: uint256) + 3600 < unat (block_timestamp \<lparr>block_timestamp = 5000, msg_sender = 7\<rparr>)
   \<and> recover test_lib (rulingDigest test_lib 1 0 50 0x99) [1] = Some (arbitrator (constructor 1))
   \<and> \<not> usedNonces (constructor 1) (replayKey test_lib 1 0x99)
   \<and> submitRuling test_lib \<lparr>block_timestamp = 5000, msg_sender = 7\<rparr> (constructor 1)
         1 0 50 0x99 [1] = Inl (Error ''signature expired'')"
proof -
  have h: "unat (50 :: uint256) + 3600
             < unat (block_timestamp \<lparr>block_timestamp = 5000, msg_sender = 7\<rparr>)"
    by simp
  show ?thesis
    using h submit_expired [OF h, where L = test_lib and s = "constructor 1"
        and orderId = 1 and ruling = 0 and nonce = "0x99" and signature = "[1]"]
    by (simp add: test_recover_def constructor_def)
qed

section \<open>Replay protection\<close>

text \<open>
  C1 fails as stated: after a pair (orderId, nonce) has been accepted, a later
  \<open>submitRuling\<close> with the same pair reverts, but not always with "nonce used". Here the
  same payload and signature, accepted at time 100, are submitted again at time 5000,
  and the revert is "signature expired".
\<close>

theorem replay_error_counterexample:
  "fst (transact test_lib
         (\<lparr>block_timestamp = 100, msg_sender = 7\<rparr>, SubmitRuling 1 0 50 0x99 [1])
         (constructor 1)) = Done
   \<and> fst (transact test_lib
         (\<lparr>block_timestamp = 5000, msg_sender = 7\<rparr>, SubmitRuling 1 0 50 0x99 [1])
         (run test_lib
            [(\<lparr>block_timestamp = 100, msg_sender = 7\<rparr>, SubmitRuling 1 0 50 0x99 [1])]
            (constructor 1))) = Reverted (Error ''signature expired'')
   \<and> Reverted (Error ''signature expired'') \<noteq> Reverted (Error ''nonce used'')"
  by (simp add: submitRuling_def verifyRulingSignature_def checked_add_def
      test_recover_def constructor_def)

text \<open>
  C1 (as amended). Once \<open>submitRuling\<close> has accepted a pair (orderId, nonce), then after
  any sequence of transactions every later \<open>submitRuling\<close> with the same pair reverts,
  with any ruling, timestamp and signature; it reverts with "nonce used" whenever its
  verification passes (so also for a different valid signature), and otherwise with the
  error of the verification: the revert of \<open>verifyRulingSignature\<close> itself, or
  "bad signature" when that returns false. No transaction ever clears an entry of
  \<open>usedNonces\<close>.
\<close>

theorem submit_at_most_once:
  assumes "submitRuling L e s orderId ruling timestamp nonce signature = Inr (s1, evs)"
  shows "(\<exists>err. submitRuling L e' (run L txs s1) orderId ruling' timestamp' nonce signature'
                  = Inl err
            \<and> (verifyRulingSignature L e' (run L txs s1) orderId ruling' timestamp' nonce
                  signature' = Inr True \<longrightarrow> err = Error ''nonce used'')
            \<and> (verifyRulingSignature L e' (run L txs s1) orderId ruling' timestamp' nonce
                  signature' \<noteq> Inr True \<longrightarrow>
                err = (case verifyRulingSignature L e' (run L txs s1) orderId ruling'
                              timestamp' nonce signature' of
                         Inl verr \<Rightarrow> verr
                       | Inr ok \<Rightarrow> Error ''bad signature'')))
         \<and> (usedNonces s0 k \<longrightarrow> usedNonces (run L txs' s0) k)"
proof -
  have "usedNonces s1 (replayKey L orderId nonce)"
    using submitRuling_Inr(3) [OF assms] by simp
  then have used: "usedNonces (run L txs s1) (replayKey L orderId nonce)"
    by (rule run_usedNonces_mono)
  have "\<exists>err. submitRuling L e' (run L txs s1) orderId ruling' timestamp' nonce signature'
                  = Inl err
            \<and> (verifyRulingSignature L e' (run L txs s1) orderId ruling' timestamp' nonce
                  signature' = Inr True \<longrightarrow> err = Error ''nonce used'')
            \<and> (verifyRulingSignature L e' (run L txs s1) orderId ruling' timestamp' nonce
                  signature' \<noteq> Inr True \<longrightarrow>
                err = (case verifyRulingSignature L e' (run L txs s1) orderId ruling'
                              timestamp' nonce signature' of
                         Inl verr \<Rightarrow> verr
                       | Inr ok \<Rightarrow> Error ''bad signature''))"
  proof (cases "verifyRulingSignature L e' (run L txs s1) orderId ruling' timestamp' nonce
                  signature' = Inr True")
    case True
    then show ?thesis using used by (simp add: submitRuling_verified)
  next
    case False
    then show ?thesis by (simp add: submitRuling_unverified)
  qed
  then show ?thesis by (simp add: run_usedNonces_mono)
qed

theorem submit_at_most_once_witness:
  "submitRuling test_lib \<lparr>block_timestamp = 100, msg_sender = 7\<rparr> (constructor 1)
      1 0 50 0x99 [1]
     = Inr ((constructor 1)\<lparr>usedNonces :=
               (usedNonces (constructor 1))(replayKey test_lib 1 0x99 := True)\<rparr>,
            [RulingSubmitted 1 0 50 0x99 7])
   \<and> submitRuling test_lib \<lparr>block_timestamp = 200, msg_sender = 9\<rparr>
        (run test_lib [(\<lparr>block_timestamp = 150, msg_sender = 1\<rparr>, SetArbitrator 2)]
           ((constructor 1)\<lparr>usedNonces :=
               (usedNonces (constructor 1))(replayKey test_lib 1 0x99 := True)\<rparr>))
        1 0 50 0x99 [2]
     = Inl (Error ''nonce used'')
   \<and> submitRuling test_lib \<lparr>block_timestamp = 5000, msg_sender = 9\<rparr>
        (run test_lib [(\<lparr>block_timestamp = 150, msg_sender = 1\<rparr>, SetArbitrator 2)]
           ((constructor 1)\<lparr>usedNonces :=
               (usedNonces (constructor 1))(replayKey test_lib 1 0x99 := True)\<rparr>))
        1 0 50 0x99 [2]
     = Inl (Error ''signature expired'')
   \<and> submitRuling test_lib \<lparr>block_timestamp = 200, msg_sender = 9\<rparr>
        (run test_lib [(\<lparr>block_timestamp = 150, msg_sender = 1\<rparr>, SetArbitrator 2)]
           ((constructor 1)\<lparr>usedNonces :=
               (usedNonces (constructor 1))(replayKey test_lib 1 0x99 := True)\<rparr>))
        1 0 50 0x99 [1]
     = Inl (Error ''bad signature'')"
proof -
  have h: "submitRuling test_lib \<lparr>block_timestamp = 100, msg_sender = 7\<rparr> (constructor 1)
      1 0 50 0x99 [1]
     = Inr ((constructor 1)\<lparr>usedNonces :=
               (usedNonces (constructor 1))(replayKey test_lib 1 0x99 := True)\<rparr>,
            [RulingSubmitted 1 0 50 0x99 7])"
    by (simp add: submitRuling_def verifyRulingSignature_def checked_add_def
        test_recover_def constructor_def)
  have v: "verifyRulingSignature test_lib \<lparr>block_timestamp = 200, msg_sender = 9\<rparr>
        (run test_lib [(\<lparr>block_timestamp = 150, msg_sender = 1\<rparr>, SetArbitrator 2)]
           ((constructor 1)\<lparr>usedNonces :=
               (usedNonces (constructor 1))(replayKey test_lib 1 0x99 := True)\<rparr>))
        1 0 50 0x99 [2] = Inr True"
    by (simp add: verifyRulingSignature_def checked_add_def test_recover_def
        constructor_def setArbitrator_def)
  from submit_at_most_once [OF h,
      where e' = "\<lparr>block_timestamp = 200, msg_sender = 9\<rparr>"
        and txs = "[(\<lparr>block_timestamp = 150, msg_sender = 1\<rparr>, SetArbitrator 2)]"
        and ruling' = 0 and timestamp' = 50 and signature' = "[2]"]
  have "submitRuling test_lib \<lparr>block_timestamp = 200, msg_sender = 9\<rparr>
        (run test_lib [(\<lparr>block_timestamp = 150, msg_sender = 1\<rparr>, SetArbitrator 2)]
           ((constructor 1)\<lparr>usedNonces :=
               (usedNonces (constructor 1))(replayKey test_lib 1 0x99 := True)\<rparr>))
        1 0 50 0x99 [2] = Inl (Error ''nonce used'')"
    using v by auto
  note used = this
  have x: "verifyRulingSignature test_lib \<lparr>block_timestamp = 5000, msg_sender = 9\<rparr>
        (run test_lib [(\<lparr>block_timestamp = 150, msg_sender = 1\<rparr>, SetArbitrator 2)]
           ((constructor 1)\<lparr>usedNonces :=
               (usedNonces (constructor 1))(replayKey test_lib 1 0x99 := True)\<rparr>))
        1 0 50 0x99 [2] = Inl (Error ''signature expired'')"
    by (simp add: verifyRulingSignature_def checked_add_def test_recover_def
        constructor_def setArbitrator_def)
  from submit_at_most_once [OF h,
      where e' = "\<lparr>block_timestamp = 5000, msg_sender = 9\<rparr>"
        and txs = "[(\<lparr>block_timestamp = 150, msg_sender = 1\<rparr>, SetArbitrator 2)]"
        and ruling' = 0 and timestamp' = 50 and signature' = "[2]"]
  have expired: "submitRuling test_lib \<lparr>block_timestamp = 5000, msg_sender = 9\<rparr>
        (run test_lib [(\<lparr>block_timestamp = 150, msg_sender = 1\<rparr>, SetArbitrator 2)]
           ((constructor 1)\<lparr>usedNonces :=
               (usedNonces (constructor 1))(replayKey test_lib 1 0x99 := True)\<rparr>))
        1 0 50 0x99 [2] = Inl (Error ''signature expired'')"
    using x by auto
  have b: "verifyRulingSignature test_lib \<lparr>block_timestamp = 200, msg_sender = 9\<rparr>
        (run test_lib [(\<lparr>block_timestamp = 150, msg_sender = 1\<rparr>, SetArbitrator 2)]
           ((constructor 1)\<lparr>usedNonces :=
               (usedNonces (constructor 1))(replayKey test_lib 1 0x99 := True)\<rparr>))
        1 0 50 0x99 [1] = Inr False"
    by (simp add: verifyRulingSignature_def checked_add_def test_recover_def
        constructor_def setArbitrator_def)
  from submit_at_most_once [OF h,
      where e' = "\<lparr>block_timestamp = 200, msg_sender = 9\<rparr>"
        and txs = "[(\<lparr>block_timestamp = 150, msg_sender = 1\<rparr>, SetArbitrator 2)]"
        and ruling' = 0 and timestamp' = 50 and signature' = "[1]"]
  have bad: "submitRuling test_lib \<lparr>block_timestamp = 200, msg_sender = 9\<rparr>
        (run test_lib [(\<lparr>block_timestamp = 150, msg_sender = 1\<rparr>, SetArbitrator 2)]
           ((constructor 1)\<lparr>usedNonces :=
               (usedNonces (constructor 1))(replayKey test_lib 1 0x99 := True)\<rparr>))
        1 0 50 0x99 [1] = Inl (Error ''bad signature'')"
    using b by auto
  from h used expired bad show ?thesis by simp
qed

text \<open>
  C2. \<open>submitRuling\<close> checks freshness and the signature before it reads or writes
  \<open>usedNonces\<close>: for every payload that is expired or whose signature does not recover
  to the arbitrator, the transaction reverts with an error other than "nonce used" and
  leaves the storage as it was, so the pair (orderId, nonce) is not recorded; and the
  call reverts with the same error whatever \<open>usedNonces\<close> holds, also when the nonce has
  never been seen.
\<close>

theorem verification_before_replay:
  assumes "unat timestamp + 3600 < unat (block_timestamp e)
           \<or> recover L (rulingDigest L orderId ruling timestamp nonce) signature
               \<noteq> Some (arbitrator s)"
  shows "\<exists>err. err \<noteq> Error ''nonce used''
           \<and> transact L (e, SubmitRuling orderId ruling timestamp nonce signature) s
               = (Reverted err, s, [])
           \<and> submitRuling L e (s\<lparr>usedNonces := U\<rparr>) orderId ruling timestamp nonce signature
               = Inl err"
proof -
  let ?v = "verifyRulingSignature L e s orderId ruling timestamp nonce signature"
  let ?err = "case ?v of Inl err \<Rightarrow> err | Inr ok \<Rightarrow> Error ''bad signature''"
  have nv: "?v \<noteq> Inr True"
    using assms by (auto simp: verify_True_iff)
  then have nv': "verifyRulingSignature L e (s\<lparr>usedNonces := U\<rparr>) orderId ruling timestamp
                    nonce signature \<noteq> Inr True"
    by (simp add: verify_usedNonces_irrelevant)
  have "?err \<noteq> Error ''nonce used''"
    by (cases ?v) (auto dest: verify_Inl)
  moreover have "transact L (e, SubmitRuling orderId ruling timestamp nonce signature) s
                   = (Reverted ?err, s, [])"
    by (simp add: submitRuling_unverified [OF nv])
  moreover have "submitRuling L e (s\<lparr>usedNonces := U\<rparr>) orderId ruling timestamp nonce
                   signature = Inl ?err"
    by (simp add: submitRuling_unverified [OF nv'] verify_usedNonces_irrelevant)
  ultimately show ?thesis by blast
qed

theorem verification_before_replay_witness:
  "(unat (50 :: uint256) + 3600 < unat (block_timestamp \<lparr>block_timestamp = 100, msg_sender = 7\<rparr>)
      \<or> recover test_lib (rulingDigest test_lib 1 0 50 0x99) [3]
           \<noteq> Some (arbitrator (constructor 1)))
   \<and> fst (transact test_lib
            (\<lparr>block_timestamp = 100, msg_sender = 7\<rparr>, SubmitRuling 1 0 50 0x99 [3])
            (constructor 1)) = Reverted (Error ''bad signature'')
   \<and> \<not> usedNonces (fst (snd (transact test_lib
            (\<lparr>block_timestamp = 100, msg_sender = 7\<rparr>, SubmitRuling 1 0 50 0x99 [3])
            (constructor 1)))) (replayKey test_lib 1 0x99)"
proof -
  have h: "unat (50 :: uint256) + 3600
             < unat (block_timestamp \<lparr>block_timestamp = 100, msg_sender = 7\<rparr>)
           \<or> recover test_lib (rulingDigest test_lib 1 0 50 0x99) [3]
               \<noteq> Some (arbitrator (constructor 1))"
    by (simp add: test_recover_def constructor_def)
  show ?thesis
    using h verification_before_replay [OF h]
    by (simp add: submitRuling_def verifyRulingSignature_def checked_add_def
        test_recover_def constructor_def)
qed

section \<open>Rotation of the arbitrator\<close>

text \<open>
  C4 fails as stated: after a rotation, a signature of the old arbitrator does not make
  \<open>verifyRulingSignature\<close> return false when its payload is expired; the call reverts
  instead. Here the arbitrator 1 is replaced by 2 at time 300, and at time 5000 a
  signature of 1 over a payload dated 50 is verified.
\<close>

theorem rotation_verify_counterexample:
  "recover test_lib (rulingDigest test_lib 1 0 50 0xAA) [1] = Some 1
   \<and> arbitrator (constructor 1) = 1
   \<and> fst (transact test_lib (\<lparr>block_timestamp = 300, msg_sender = 1\<rparr>, SetArbitrator 2)
          (constructor 1)) = Done
   \<and> fst (transact test_lib
          (\<lparr>block_timestamp = 5000, msg_sender = 7\<rparr>, VerifyRulingSignature 1 0 50 0xAA [1])
          (run test_lib [(\<lparr>block_timestamp = 300, msg_sender = 1\<rparr>, SetArbitrator 2)]
             (constructor 1))) = Reverted (Error ''signature expired'')
   \<and> Reverted (Error ''signature expired'') \<noteq> Returned False"
  by (simp add: verifyRulingSignature_def checked_add_def test_recover_def constructor_def
      setArbitrator_def)

text \<open>
  C4 (as amended). After \<open>setArbitrator\<close> has replaced the arbitrator by a different
  address, a signature that recovers to the old arbitrator never verifies:
  \<open>verifyRulingSignature\<close> returns false when the payload is within the freshness window,
  and reverts ("signature expired", or the arithmetic panic when \<open>timestamp + 3600\<close>
  overflows) otherwise; \<open>submitRuling\<close> reverts in every case. The rotation leaves
  \<open>usedNonces\<close> as it was.
\<close>

theorem rotation_invalidates_old_signatures:
  assumes "setArbitrator e0 s new = Inr (s', evs)"
    and "new \<noteq> arbitrator s"
    and "recover L (rulingDigest L orderId ruling timestamp nonce) signature
           = Some (arbitrator s)"
  shows "verifyRulingSignature L e s' orderId ruling timestamp nonce signature =
           (if \<not> unat timestamp + 3600 < 2 ^ 256 then Inl (Panic 0x11)
            else if unat timestamp + 3600 < unat (block_timestamp e)
            then Inl (Error ''signature expired'')
            else Inr False)
         \<and> (\<exists>err. submitRuling L e s' orderId ruling timestamp nonce signature = Inl err)
         \<and> usedNonces s' = usedNonces s"
proof -
  have s': "s' = s\<lparr>arbitrator := new\<rparr>"
    using assms(1) by (auto simp: setArbitrator_def split: if_splits)
  have nv: "verifyRulingSignature L e s' orderId ruling timestamp nonce signature \<noteq> Inr True"
    using assms(2,3) by (auto simp: verify_True_iff s')
  have "verifyRulingSignature L e s' orderId ruling timestamp nonce signature =
           (if \<not> unat timestamp + 3600 < 2 ^ 256 then Inl (Panic 0x11)
            else if unat timestamp + 3600 < unat (block_timestamp e)
            then Inl (Error ''signature expired'')
            else Inr False)"
  proof (cases "unat timestamp + 3600 < 2 ^ 256")
    case False
    then show ?thesis by (simp add: verify_overflow)
  next
    case True
    show ?thesis
    proof (cases "unat timestamp + 3600 < unat (block_timestamp e)")
      case expired: True
      with True show ?thesis by (simp add: verify_expired)
    next
      case False
      then have "unat (block_timestamp e) \<le> unat timestamp + 3600" by simp
      from verify_fresh [OF True this] True False assms(2,3) show ?thesis
        by (auto simp: s')
    qed
  qed
  moreover have "\<exists>err. submitRuling L e s' orderId ruling timestamp nonce signature = Inl err"
    by (simp add: submitRuling_unverified [OF nv])
  moreover have "usedNonces s' = usedNonces s"
    by (simp add: s')
  ultimately show ?thesis by blast
qed

theorem rotation_invalidates_old_signatures_witness:
  "setArbitrator \<lparr>block_timestamp = 300, msg_sender = 1\<rparr> (constructor 1) 2
     = Inr ((constructor 1)\<lparr>arbitrator := 2\<rparr>, [ArbitratorChanged 2])
   \<and> 2 \<noteq> arbitrator (constructor 1)
   \<and> recover test_lib (rulingDigest test_lib 1 0 50 0xAA) [1]
       = Some (arbitrator (constructor 1))
   \<and> verifyRulingSignature test_lib \<lparr>block_timestamp = 400, msg_sender = 7\<rparr>
        ((constructor 1)\<lparr>arbitrator := 2\<rparr>) 1 0 50 0xAA [1] = Inr False"
proof -
  have h1: "setArbitrator \<lparr>block_timestamp = 300, msg_sender = 1\<rparr> (constructor 1) 2
     = Inr ((constructor 1)\<lparr>arbitrator := 2\<rparr>, [ArbitratorChanged 2])"
    by (simp add: setArbitrator_def constructor_def)
  have h2: "2 \<noteq> arbitrator (constructor 1)"
    by (simp add: constructor_def)
  have h3: "recover test_lib (rulingDigest test_lib 1 0 50 0xAA) [1]
       = Some (arbitrator (constructor 1))"
    by (simp add: test_recover_def constructor_def)
  from rotation_invalidates_old_signatures [OF h1 h2 h3,
      where e = "\<lparr>block_timestamp = 400, msg_sender = 7\<rparr>"]
  have "verifyRulingSignature test_lib \<lparr>block_timestamp = 400, msg_sender = 7\<rparr>
        ((constructor 1)\<lparr>arbitrator := 2\<rparr>) 1 0 50 0xAA [1] = Inr False"
    by simp
  with h1 h2 h3 show ?thesis by simp
qed

section \<open>Verification is a pure function\<close>

text \<open>
  C5. \<open>verifyRulingSignature\<close> depends only on the payload, the signature, the active
  arbitrator and the current time: in two states with the same arbitrator, at the same
  block time, it gives the same result, whatever \<open>usedNonces\<close> holds and whoever calls.
  A transaction that calls it leaves the storage as it was and emits nothing, so it
  never records a replay key.
\<close>

theorem verify_pure:
  assumes "arbitrator s1 = arbitrator s2"
    and "block_timestamp e1 = block_timestamp e2"
  shows "verifyRulingSignature L e1 s1 orderId ruling timestamp nonce signature
           = verifyRulingSignature L e2 s2 orderId ruling timestamp nonce signature
         \<and> snd (transact L (e1, VerifyRulingSignature orderId ruling timestamp nonce signature)
                  s1) = (s1, [])"
proof -
  have "verifyRulingSignature L e1 s1 orderId ruling timestamp nonce signature
          = verifyRulingSignature L e2 s2 orderId ruling timestamp nonce signature"
    using assms by (simp add: verifyRulingSignature_def Let_def split: option.splits)
  moreover have "snd (transact L
      (e1, VerifyRulingSignature orderId ruling timestamp nonce signature) s1) = (s1, [])"
    by (simp split: sum.splits)
  ultimately show ?thesis by simp
qed

theorem verify_pure_witness:
  "arbitrator (constructor 1) = arbitrator ((constructor 1)\<lparr>usedNonces := (\<lambda>k. True)\<rparr>)
   \<and> block_timestamp \<lparr>block_timestamp = 100, msg_sender = 7\<rparr>
       = block_timestamp \<lparr>block_timestamp = 100, msg_sender = 9\<rparr>
   \<and> verifyRulingSignature test_lib \<lparr>block_timestamp = 100, msg_sender = 7\<rparr>
        (constructor 1) 1 0 50 0x99 [1]
       = verifyRulingSignature test_lib \<lparr>block_timestamp = 100, msg_sender = 9\<rparr>
           ((constructor 1)\<lparr>usedNonces := (\<lambda>k. True)\<rparr>) 1 0 50 0x99 [1]
   \<and> verifyRulingSignature test_lib \<lparr>block_timestamp = 100, msg_sender = 7\<rparr>
        (constructor 1) 1 0 50 0x99 [1] = Inr True"
proof -
  have h1: "arbitrator (constructor 1)
              = arbitrator ((constructor 1)\<lparr>usedNonces := (\<lambda>k. True)\<rparr>)"
    by simp
  have h2: "block_timestamp \<lparr>block_timestamp = 100, msg_sender = 7\<rparr>
              = block_timestamp \<lparr>block_timestamp = 100, msg_sender = 9\<rparr>"
    by simp
  have v: "verifyRulingSignature test_lib \<lparr>block_timestamp = 100, msg_sender = 7\<rparr>
        (constructor 1) 1 0 50 0x99 [1] = Inr True"
    by (simp add: verifyRulingSignature_def checked_add_def test_recover_def constructor_def)
  from verify_pure [OF h1 h2, where L = test_lib and orderId = 1 and ruling = 0
      and timestamp = 50 and nonce = "0x99" and signature = "[1]"] h1 h2 v
  show ?thesis by simp
qed

section \<open>Effects of a submission\<close>

text \<open>
  C6. \<open>submitRuling\<close> changes the storage only when it succeeds, and then by setting
  exactly one entry of \<open>usedNonces\<close>, the key of (orderId, nonce), which was unset
  before; the arbitrator is as before. Whenever it reverts (expired, arithmetic panic,
  unrecoverable signature, wrong signer, or nonce used), the storage is exactly as
  before the call and nothing is emitted, so every later transaction runs as if the
  failed call had not been made.
\<close>

theorem submit_mutates_only_on_success:
  "(\<not> usedNonces s (replayKey L orderId nonce)
      \<and> transact L (e, SubmitRuling orderId ruling timestamp nonce signature) s =
          (Done,
           s\<lparr>usedNonces := (usedNonces s)(replayKey L orderId nonce := True)\<rparr>,
           [RulingSubmitted orderId ruling timestamp nonce (msg_sender e)]))
   \<or> (\<exists>err. transact L (e, SubmitRuling orderId ruling timestamp nonce signature) s =
              (Reverted err, s, [])
          \<and> (err = Panic 0x11 \<or> err = Error ''signature expired'' \<or> err = ECDSAError
               \<or> err = Error ''bad signature'' \<or> err = Error ''nonce used'')
          \<and> run L ((e, SubmitRuling orderId ruling timestamp nonce signature) # txs) s
               = run L txs s)"
proof (cases "submitRuling L e s orderId ruling timestamp nonce signature")
  case (Inr r)
  obtain s' evs where r: "r = (s', evs)" by (cases r)
  from Inr r submitRuling_Inr [of L e s orderId ruling timestamp nonce signature s' evs]
  show ?thesis by simp
next
  case (Inl err)
  have "err = Panic 0x11 \<or> err = Error ''signature expired'' \<or> err = ECDSAError
          \<or> err = Error ''bad signature'' \<or> err = Error ''nonce used''"
  proof (cases "verifyRulingSignature L e s orderId ruling timestamp nonce signature")
    case v: (Inl err')
    with Inl have "err' = err" by (simp add: submitRuling_def)
    with verify_Inl [OF v] show ?thesis by blast
  next
    case (Inr ok)
    with Inl show ?thesis by (auto simp: submitRuling_def split: if_splits)
  qed
  with Inl show ?thesis by simp
qed

theorem submit_mutates_only_on_success_witness:
  "\<not> usedNonces (constructor 1) (replayKey test_lib 1 0x99)
   \<and> transact test_lib
        (\<lparr>block_timestamp = 100, msg_sender = 7\<rparr>, SubmitRuling 1 0 50 0x99 [1])
        (constructor 1) =
       (Done,
        (constructor 1)\<lparr>usedNonces :=
           (usedNonces (constructor 1))(replayKey test_lib 1 0x99 := True)\<rparr>,
        [RulingSubmitted 1 0 50 0x99 7])"
  using submit_mutates_only_on_success [where L = test_lib and s = "constructor 1"
      and e = "\<lparr>block_timestamp = 100, msg_sender = 7\<rparr>" and orderId = 1 and ruling = 0
      and timestamp = 50 and nonce = "0x99" and signature = "[1]" and txs = "[]"]
  by (simp add: submitRuling_def verifyRulingSignature_def checked_add_def
      test_recover_def constructor_def)

section \<open>Malformed signatures\<close>




section \<open>Events\<close>

text \<open>
  C8 fails as stated: the record of an accepted submission does not carry the time of
  acceptance, and the record of a rotation carries no timestamp. Here the same
  submission is accepted at time 100 and at time 200, and the same rotation is made
  at both times: the records emitted are the same, and the only time in them is the
  payload's own timestamp 50.
\<close>

theorem event_timestamp_counterexample:
  "snd (snd (transact test_lib
        (\<lparr>block_timestamp = 100, msg_sender = 7\<rparr>, SubmitRuling 1 0 50 0x99 [1])
        (constructor 1))) = [RulingSubmitted 1 0 50 0x99 7]
   \<and> snd (snd (transact test_lib
        (\<lparr>block_timestamp = 200, msg_sender = 7\<rparr>, SubmitRuling 1 0 50 0x99 [1])
        (constructor 1))) = [RulingSubmitted 1 0 50 0x99 7]
   \<and> snd (snd (transact test_lib
        (\<lparr>block_timestamp = 100, msg_sender = 1\<rparr>, SetArbitrator 2)
        (constructor 1))) = [ArbitratorChanged 2]
   \<and> snd (snd (transact test_lib
        (\<lparr>block_timestamp = 200, msg_sender = 1\<rparr>, SetArbitrator 2)
        (constructor 1))) = [ArbitratorChanged 2]"
  by (simp add: submitRuling_def verifyRulingSignature_def checked_add_def
      test_recover_def constructor_def setArbitrator_def)

text \<open>
  C8 (as amended). Every accepted submission emits exactly one record,
  \<open>RulingSubmitted\<close>, carrying orderId, ruling, the payload's timestamp, nonce and the
  address of the submitter; every successful rotation emits exactly one record,
  \<open>ArbitratorChanged\<close>, carrying the new arbitrator. Neither record carries the time of
  the call. The log of a sequence of transactions only grows: a further transaction
  appends its records to it.
\<close>

theorem emitted_events:
  "(fst (transact L (e, SubmitRuling orderId ruling timestamp nonce signature) s) = Done \<longrightarrow>
      snd (snd (transact L (e, SubmitRuling orderId ruling timestamp nonce signature) s))
        = [RulingSubmitted orderId ruling timestamp nonce (msg_sender e)])
   \<and> (fst (transact L (e, SetArbitrator a) s) = Done \<longrightarrow>
      snd (snd (transact L (e, SetArbitrator a) s)) = [ArbitratorChanged a])
   \<and> run_log L (txs @ [tx]) s0
       = run_log L txs s0 @ snd (snd (transact L tx (run L txs s0)))"
proof -
  have "fst (transact L (e, SubmitRuling orderId ruling timestamp nonce signature) s) = Done \<longrightarrow>
      snd (snd (transact L (e, SubmitRuling orderId ruling timestamp nonce signature) s))
        = [RulingSubmitted orderId ruling timestamp nonce (msg_sender e)]"
    by (auto split: sum.splits dest: submitRuling_Inr(4))
  moreover have "fst (transact L (e, SetArbitrator a) s) = Done \<longrightarrow>
      snd (snd (transact L (e, SetArbitrator a) s)) = [ArbitratorChanged a]"
    by (simp add: setArbitrator_def)
  ultimately show ?thesis by (simp add: run_log_snoc)
qed

theorem emitted_events_witness:
  "fst (transact test_lib
        (\<lparr>block_timestamp = 100, msg_sender = 7\<rparr>, SubmitRuling 1 0 50 0x99 [1])
        (constructor 1)) = Done
   \<and> fst (transact test_lib (\<lparr>block_timestamp = 300, msg_sender = 1\<rparr>, SetArbitrator 2)
        (constructor 1)) = Done
   \<and> run_log test_lib
        ([(\<lparr>block_timestamp = 100, msg_sender = 7\<rparr>, SubmitRuling 1 0 50 0x99 [1])]
          @ [(\<lparr>block_timestamp = 300, msg_sender = 1\<rparr>, SetArbitrator 2)])
        (constructor 1)
       = [RulingSubmitted 1 0 50 0x99 7, ArbitratorChanged 2]"
  using emitted_events [where L = test_lib and s = "constructor 1"
      and e = "\<lparr>block_timestamp = 100, msg_sender = 7\<rparr>" and orderId = 1 and ruling = 0
      and timestamp = 50 and nonce = "0x99" and signature = "[1]"
      and txs = "[(\<lparr>block_timestamp = 100, msg_sender = 7\<rparr>, SubmitRuling 1 0 50 0x99 [1])]"
      and tx = "(\<lparr>block_timestamp = 300, msg_sender = 1\<rparr>, SetArbitrator 2)"
      and ?s0.0 = "constructor 1"]
  by (simp add: submitRuling_def verifyRulingSignature_def checked_add_def
      test_recover_def constructor_def setArbitrator_def)

section \<open>Unvalidated rotation and future-dated rulings\<close>

text \<open>
  C9. \<open>setArbitrator\<close> does not validate the new address: called by the current
  arbitrator it succeeds for every address \<open>a\<close>, the zero address and the current
  arbitrator included, and makes \<open>a\<close> the arbitrator. Once the zero address is the
  arbitrator the contract is stuck: \<open>ECDSA.recover\<close> never yields the zero address and
  no transaction has the zero address as sender, so after any sequence of
  transactions the storage is still the same, \<open>setArbitrator\<close> reverts with
  "only arbitrator", no signature verifies and \<open>submitRuling\<close> reverts.
\<close>

theorem setArbitrator_unvalidated:
  "(msg_sender e = arbitrator s \<longrightarrow>
      setArbitrator e s a = Inr (s\<lparr>arbitrator := a\<rparr>, [ArbitratorChanged a]))
   \<and> ((\<forall>d sg. recover L d sg \<noteq> Some 0) \<and> (\<forall>tx \<in> set txs. msg_sender (fst tx) \<noteq> 0)
        \<and> msg_sender e' \<noteq> 0 \<longrightarrow>
        run L txs (s\<lparr>arbitrator := 0\<rparr>) = s\<lparr>arbitrator := 0\<rparr>
        \<and> setArbitrator e' (run L txs (s\<lparr>arbitrator := 0\<rparr>)) a'
            = Inl (Error ''only arbitrator'')
        \<and> verifyRulingSignature L e' (run L txs (s\<lparr>arbitrator := 0\<rparr>))
              orderId ruling timestamp nonce signature \<noteq> Inr True
        \<and> (\<exists>err. submitRuling L e' (run L txs (s\<lparr>arbitrator := 0\<rparr>))
              orderId ruling timestamp nonce signature = Inl err))"
proof -
  have rot: "msg_sender e = arbitrator s \<longrightarrow>
      setArbitrator e s a = Inr (s\<lparr>arbitrator := a\<rparr>, [ArbitratorChanged a])"
    by (simp add: setArbitrator_def)
  have stuck: "run L txs (s\<lparr>arbitrator := 0\<rparr>) = s\<lparr>arbitrator := 0\<rparr>
        \<and> setArbitrator e' (run L txs (s\<lparr>arbitrator := 0\<rparr>)) a'
            = Inl (Error ''only arbitrator'')
        \<and> verifyRulingSignature L e' (run L txs (s\<lparr>arbitrator := 0\<rparr>))
              orderId ruling timestamp nonce signature \<noteq> Inr True
        \<and> (\<exists>err. submitRuling L e' (run L txs (s\<lparr>arbitrator := 0\<rparr>))
              orderId ruling timestamp nonce signature = Inl err)"
    if r: "\<forall>d sg. recover L d sg \<noteq> Some 0"
      and t: "\<forall>tx \<in> set txs. msg_sender (fst tx) \<noteq> 0"
      and c: "msg_sender e' \<noteq> 0"
  proof -
    have z: "arbitrator (s\<lparr>arbitrator := 0\<rparr>) = 0" by simp
    have run: "run L txs (s\<lparr>arbitrator := 0\<rparr>) = s\<lparr>arbitrator := 0\<rparr>"
      using run_zero_arbitrator [OF z r t] by simp
    have nv: "verifyRulingSignature L e' (s\<lparr>arbitrator := 0\<rparr>)
                orderId ruling timestamp nonce signature \<noteq> Inr True"
      by (rule verify_zero_arbitrator [OF z r])
    have "setArbitrator e' (s\<lparr>arbitrator := 0\<rparr>) a' = Inl (Error ''only arbitrator'')"
      using c by (simp add: setArbitrator_def)
    with run nv show ?thesis
      by (simp add: submitRuling_unverified [OF nv])
  qed
  from rot stuck show ?thesis by blast
qed

theorem setArbitrator_unvalidated_witness:
  "msg_sender \<lparr>block_timestamp = 300, msg_sender = 1\<rparr> = arbitrator (constructor 1)
   \<and> setArbitrator \<lparr>block_timestamp = 300, msg_sender = 1\<rparr> (constructor 1) 0
       = Inr ((constructor 1)\<lparr>arbitrator := 0\<rparr>, [ArbitratorChanged 0])
   \<and> run test_lib [(\<lparr>block_timestamp = 400, msg_sender = 1\<rparr>, SetArbitrator 1),
                    (\<lparr>block_timestamp = 500, msg_sender = 7\<rparr>, SubmitRuling 1 0 450 0x99 [1])]
        ((constructor 1)\<lparr>arbitrator := 0\<rparr>) = (constructor 1)\<lparr>arbitrator := 0\<rparr>
   \<and> setArbitrator \<lparr>block_timestamp = 600, msg_sender = 1\<rparr>
        (run test_lib [(\<lparr>block_timestamp = 400, msg_sender = 1\<rparr>, SetArbitrator 1),
                    (\<lparr>block_timestamp = 500, msg_sender = 7\<rparr>, SubmitRuling 1 0 450 0x99 [1])]
           ((constructor 1)\<lparr>arbitrator := 0\<rparr>)) 1 = Inl (Error ''only arbitrator'')"
proof -
  have h1: "msg_sender \<lparr>block_timestamp = 300, msg_sender = 1\<rparr> = arbitrator (constructor 1)"
    by (simp add: constructor_def)
  have h2: "\<forall>d sg. recover test_lib d sg \<noteq> Some 0"
    using test_recover_nonzero by blast
  have h3: "\<forall>tx \<in> set [(\<lparr>block_timestamp = 400, msg_sender = 1\<rparr>, SetArbitrator 1),
                    (\<lparr>block_timestamp = 500, msg_sender = 7\<rparr>, SubmitRuling 1 0 450 0x99 [1])].
         msg_sender (fst tx) \<noteq> (0 :: address)"
    by simp
  have h4: "msg_sender \<lparr>block_timestamp = 600, msg_sender = 1\<rparr> \<noteq> (0 :: address)"
    by simp
  from setArbitrator_unvalidated [where L = test_lib and s = "constructor 1" and a = 0
      and e = "\<lparr>block_timestamp = 300, msg_sender = 1\<rparr>"
      and e' = "\<lparr>block_timestamp = 600, msg_sender = 1\<rparr>" and a' = 1
      and txs = "[(\<lparr>block_timestamp = 400, msg_sender = 1\<rparr>, SetArbitrator 1),
                    (\<lparr>block_timestamp = 500, msg_sender = 7\<rparr>, SubmitRuling 1 0 450 0x99 [1])]"]
    h1 h2 h3 h4
  show ?thesis by blast
qed

text \<open>
  C10. The freshness check bounds only the age of a payload. When \<open>timestamp + 3600\<close>
  does not overflow, a payload dated at or after the current block time passes the
  expiry check, so the result is decided by the signature alone; and a payload signed
  by the arbitrator verifies, and is accepted with an unused nonce, at every block
  time up to \<open>timestamp + 3600\<close>, however far in the future \<open>timestamp\<close> lies.
\<close>

theorem future_dated_accepted:
  assumes "unat timestamp + 3600 < 2 ^ 256"
  shows "(block_timestamp e \<le> timestamp \<longrightarrow>
            verifyRulingSignature L e s orderId ruling timestamp nonce signature =
              (case recover L (rulingDigest L orderId ruling timestamp nonce) signature of
                 None \<Rightarrow> Inl ECDSAError
               | Some signer \<Rightarrow> Inr (signer = arbitrator s)))
         \<and> (unat (block_timestamp e) \<le> unat timestamp + 3600
              \<and> recover L (rulingDigest L orderId ruling timestamp nonce) signature
                  = Some (arbitrator s) \<longrightarrow>
              verifyRulingSignature L e s orderId ruling timestamp nonce signature = Inr True
              \<and> (\<not> usedNonces s (replayKey L orderId nonce) \<longrightarrow>
                   transact L (e, SubmitRuling orderId ruling timestamp nonce signature) s =
                     (Done,
                      s\<lparr>usedNonces := (usedNonces s)(replayKey L orderId nonce := True)\<rparr>,
                      [RulingSubmitted orderId ruling timestamp nonce (msg_sender e)])))"
proof -
  have a: "verifyRulingSignature L e s orderId ruling timestamp nonce signature =
              (case recover L (rulingDigest L orderId ruling timestamp nonce) signature of
                 None \<Rightarrow> Inl ECDSAError
               | Some signer \<Rightarrow> Inr (signer = arbitrator s))"
    if "block_timestamp e \<le> timestamp"
  proof -
    from that have "unat (block_timestamp e) \<le> unat timestamp"
      by (simp add: word_le_nat_alt)
    then have "unat (block_timestamp e) \<le> unat timestamp + 3600" by simp
    from verify_fresh [OF assms this] show ?thesis .
  qed
  have b: "verifyRulingSignature L e s orderId ruling timestamp nonce signature = Inr True
              \<and> (\<not> usedNonces s (replayKey L orderId nonce) \<longrightarrow>
                   transact L (e, SubmitRuling orderId ruling timestamp nonce signature) s =
                     (Done,
                      s\<lparr>usedNonces := (usedNonces s)(replayKey L orderId nonce := True)\<rparr>,
                      [RulingSubmitted orderId ruling timestamp nonce (msg_sender e)]))"
    if "unat (block_timestamp e) \<le> unat timestamp + 3600"
      and "recover L (rulingDigest L orderId ruling timestamp nonce) signature
             = Some (arbitrator s)"
  proof -
    have v: "verifyRulingSignature L e s orderId ruling timestamp nonce signature = Inr True"
      using assms that by (simp add: verify_True_iff)
    then show ?thesis by (simp add: submitRuling_verified)
  qed
  from a b show ?thesis by blast
qed

theorem future_dated_accepted_witness:
  "unat (0x8000000000000000000000000000000000000000000000000000000000000000 :: uint256) + 3600
     < 2 ^ 256
   \<and> block_timestamp \<lparr>block_timestamp = 100, msg_sender = 7\<rparr>
       \<le> 0x8000000000000000000000000000000000000000000000000000000000000000
   \<and> recover test_lib (rulingDigest test_lib 1 0
         0x8000000000000000000000000000000000000000000000000000000000000000 0x99) [1]
       = Some (arbitrator (constructor 1))
   \<and> \<not> usedNonces (constructor 1) (replayKey test_lib 1 0x99)
   \<and> verifyRulingSignature test_lib \<lparr>block_timestamp = 100, msg_sender = 7\<rparr> (constructor 1)
        1 0 0x8000000000000000000000000000000000000000000000000000000000000000 0x99 [1]
       = Inr True
   \<and> fst (transact test_lib (\<lparr>block_timestamp = 100, msg_sender = 7\<rparr>,
        SubmitRuling 1 0 0x8000000000000000000000000000000000000000000000000000000000000000
          0x99 [1]) (constructor 1)) = Done"
proof -
  have h: "unat (0x8000000000000000000000000000000000000000000000000000000000000000 :: uint256)
             + 3600 < 2 ^ 256"
    by simp
  have h1: "unat (block_timestamp \<lparr>block_timestamp = 100, msg_sender = 7\<rparr>)
     \<le> unat (0x8000000000000000000000000000000000000000000000000000000000000000 :: uint256)
         + 3600"
    by simp
  have h2: "block_timestamp \<lparr>block_timestamp = 100, msg_sender = 7\<rparr>
       \<le> 0x8000000000000000000000000000000000000000000000000000000000000000"
    by simp
  have h3: "recover test_lib (rulingDigest test_lib 1 0
         0x8000000000000000000000000000000000000000000000000000000000000000 0x99) [1]
       = Some (arbitrator (constructor 1))"
    by (simp add: test_recover_def constructor_def)
  have h4: "\<not> usedNonces (constructor 1) (replayKey test_lib 1 0x99)"
    by (simp add: constructor_def)
  from future_dated_accepted [OF h, where L = test_lib and s = "constructor 1"
      and e = "\<lparr>block_timestamp = 100, msg_sender = 7\<rparr>" and orderId = 1 and ruling = 0
      and nonce = "0x99" and signature = "[1]"] h h1 h2 h3 h4
  show ?thesis by simp
qed

end
